theory Spec2Isabelle
  imports Main
begin

section \<open>LupaAlGiro: reconstruction of payment records\<close>

text \<open>
  A shallow embedding of \<^verbatim>\<open>LupaAlGiro_Clientes.py\<close>. A Python \<^verbatim>\<open>str\<close> is a
  \<open>string\<close> whose characters are read as code points (Latin-1, so code points below
  256): \<open>length\<close> counts code points as Python's \<^verbatim>\<open>len\<close> does.
\<close>

subsection \<open>Python's string operations\<close>

definition isspace :: "char \<Rightarrow> bool" where
  \<comment> \<open>\<^verbatim>\<open>str.isspace\<close> on one character: TAB..CR, FS..US, space, NEL, NBSP.\<close>
  "isspace c =
     (let n = (of_char c :: nat)
      in (9 \<le> n \<and> n \<le> 13) \<or> (28 \<le> n \<and> n \<le> 32) \<or> n = 133 \<or> n = 160)"

definition isdigit :: "char \<Rightarrow> bool" where
  \<comment> \<open>\<^verbatim>\<open>str.isdigit\<close> on one character: 0..9 and the superscripts 2, 3, 1.\<close>
  "isdigit c =
     (let n = (of_char c :: nat)
      in (48 \<le> n \<and> n \<le> 57) \<or> n = 178 \<or> n = 179 \<or> n = 185)"

definition strip :: "string \<Rightarrow> string" where
  \<comment> \<open>\<^verbatim>\<open>s.strip()\<close>: white space removed at both ends.\<close>
  "strip s = rev (dropWhile isspace (rev (dropWhile isspace s)))"

fun str_in :: "string \<Rightarrow> string \<Rightarrow> bool" where
  \<comment> \<open>\<^verbatim>\<open>sub in s\<close>\<close>
  "str_in sub [] = (sub = [])"
| "str_in sub (c # cs) = (take (length sub) (c # cs) = sub \<or> str_in sub cs)"

fun py_split :: "char \<Rightarrow> nat \<Rightarrow> string \<Rightarrow> string list" where
  \<comment> \<open>\<^verbatim>\<open>s.split(sep, maxsplit)\<close> for a separator of one character\<close>
  "py_split sep 0 s = [s]"
| "py_split sep (Suc n) s =
     (if sep \<in> set s
      then takeWhile (\<lambda>c. c \<noteq> sep) s # py_split sep n (tl (dropWhile (\<lambda>c. c \<noteq> sep) s))
      else [s])"

subsection \<open>Exceptions and indexing\<close>

datatype excepcion = IndexError | WebDriverException

definition getitem :: "'a list \<Rightarrow> nat \<Rightarrow> excepcion + 'a" where
  \<comment> \<open>\<^verbatim>\<open>xs[i]\<close> for an index that is not negative\<close>
  "getitem xs i = (if i < length xs then Inr (xs ! i) else Inl IndexError)"

definition bind_exc :: "excepcion + 'a \<Rightarrow> ('a \<Rightarrow> excepcion + 'b) \<Rightarrow> excepcion + 'b" where
  \<comment> \<open>sequencing: an exception raised by the first step skips the rest\<close>
  "bind_exc m f = (case m of Inl e \<Rightarrow> Inl e | Inr x \<Rightarrow> f x)"

subsection \<open>The scan of one row\<close>

record 'v registro =
  NIT_IPS :: string
  Nombre_IPS :: string
  Fecha_Giro :: string
  Valor :: 'v
  Concepto :: string
  Entidad :: string

definition sin_monto :: "string \<Rightarrow> bool" where
  \<comment> \<open>\<^verbatim>\<open>'$' not in posible_valor and not any(char.isdigit() for char in posible_valor)\<close>\<close>
  "sin_monto posible_valor =
     (CHR ''$'' \<notin> set posible_valor \<and> \<not> list_ex isdigit posible_valor)"

definition intento :: "string list \<Rightarrow> nat \<Rightarrow> string \<Rightarrow> excepcion + string registro option" where
  \<comment> \<open>The body of the \<^verbatim>\<open>try\<close> for the anchor \<open>cell\<close> at \<open>idx\<close>: \<open>Inl e\<close> when it
      raises \<open>e\<close>, \<open>Inr (Some r)\<close> when it appends \<open>r\<close> and breaks, \<open>Inr None\<close> when it
      goes on to the next cell (\<^verbatim>\<open>continue\<close>, or the end of the body).\<close>
  "intento cols idx cell =
     bind_exc (getitem cols (idx + 2)) (\<lambda>posible_valor.
       if sin_monto posible_valor then Inr None
       else
         let partes = py_split CHR ''-'' 2 cell in
         if length partes \<ge> 3 then
           bind_exc (getitem partes 1) (\<lambda>nit.
           bind_exc (getitem partes 2) (\<lambda>nombre.
           bind_exc (getitem cols (idx + 1)) (\<lambda>fecha.
           bind_exc (if idx + 3 < length cols then getitem cols (idx + 3) else Inr ''N/A'') (\<lambda>concepto.
           bind_exc (if idx + 4 < length cols then getitem cols (idx + 4) else Inr ''N/A'') (\<lambda>entidad.
             Inr (Some \<lparr>NIT_IPS = nit, Nombre_IPS = nombre, Fecha_Giro = fecha,
                        Valor = posible_valor, Concepto = concepto, Entidad = entidad\<rparr>))))))
         else Inr None)"

function escanear :: "string list \<Rightarrow> nat \<Rightarrow> string registro option" where
  \<comment> \<open>\<^verbatim>\<open>for idx, cell in enumerate(cols)\<close> from \<open>idx\<close> on: the record appended before
      the \<^verbatim>\<open>break\<close>, or \<open>None\<close> when the loop ends with nothing appended.\<close>
  "escanear cols idx =
     (if idx < length cols then
        (let cell = cols ! idx in
         if str_in ''NIT-'' cell \<and> idx + 2 < length cols then
           (case intento cols idx cell of
              Inl e \<Rightarrow> escanear cols (idx + 1)
            | Inr None \<Rightarrow> escanear cols (idx + 1)
            | Inr (Some r) \<Rightarrow> Some r)
         else escanear cols (idx + 1))
      else None)"
  by pat_completeness auto
termination
  by (relation "measure (\<lambda>(cols, idx). length cols - idx)") auto

declare escanear.simps [simp del]

subsection \<open>The record reconstructor\<close>

definition DataFrame :: "string \<Rightarrow> string list list \<Rightarrow> string list list" where
  \<comment> \<open>\<^verbatim>\<open>pd.DataFrame(extraccion_bruta)\<close> read row by row (\<^verbatim>\<open>iterrows\<close>): the frame is
      as wide as the longest row, and a shorter row is filled with missing cells. \<open>na\<close> is
      the text \<^verbatim>\<open>str\<close> gives for a missing cell (\<^verbatim>\<open>None\<close> or \<^verbatim>\<open>nan\<close>, by the version
      of pandas).\<close>
  "DataFrame na filas =
     (let ancho = foldr max (map length filas) 0
      in map (\<lambda>fila. fila @ replicate (ancho - length fila) na) filas)"

definition fila_cols :: "string list \<Rightarrow> string list" where
  \<comment> \<open>\<^verbatim>\<open>[str(c).strip() for c in row if str(c).strip() != ""]\<close>\<close>
  "fila_cols row = map strip (filter (\<lambda>c. strip c \<noteq> []) row)"

fun recorrer :: "string list list \<Rightarrow> string registro list \<Rightarrow> string registro list" where
  \<comment> \<open>\<^verbatim>\<open>for _, row in df_raw.iterrows()\<close>, with \<open>registros_finales\<close> as accumulator\<close>
  "recorrer [] registros_finales = registros_finales"
| "recorrer (row # filas) registros_finales =
     recorrer filas
       (case escanear (fila_cols row) 0 of
          None \<Rightarrow> registros_finales
        | Some r \<Rightarrow> registros_finales @ [r])"

definition quitar_simbolos :: "string \<Rightarrow> string" where
  \<comment> \<open>\<^verbatim>\<open>.replace(r'[\$,\.]', '', regex=True)\<close> on one text\<close>
  "quitar_simbolos s = filter (\<lambda>c. c \<notin> {CHR ''$'', CHR '','', CHR ''.''}) s"

subsection \<open>Numbers as pandas reads them\<close>

datatype numero = Entero int | OtroNumero

text \<open>
  A number of the Valor column, by its mathematical value. \<open>Entero n\<close> is the whole
  number \<open>n\<close>, with \<open>\<bar>n\<bar> \<le> 2 ^ 53\<close>: such a number is the same in a column of 64-bit
  integers and in a column of 64-bit floats, so the type pandas gives the column (floats
  as soon as one entry is NaN or a float) does not change it. \<open>OtroNumero\<close> stands for
  every other number of the column: a float read from an exponent form or a word for
  infinity, or a whole number beyond \<open>2 ^ 53\<close>, which a column of floats rounds. Its value
  depends on floating point and on the rest of the column and is not modelled.
\<close>

definition isdigit_ascii :: "char \<Rightarrow> bool" where
  "isdigit_ascii c = (let n = (of_char c :: nat) in 48 \<le> n \<and> n \<le> 57)"

definition valor_decimal :: "string \<Rightarrow> int" where
  \<comment> \<open>the number that a text of decimal digits writes\<close>
  "valor_decimal ds = foldl (\<lambda>n c. 10 * n + (of_char c - 48)) 0 ds"

definition sin_signo :: "string \<Rightarrow> string" where
  \<comment> \<open>the text after its sign, when it starts with one\<close>
  "sin_signo s =
     (case s of [] \<Rightarrow> [] | c # cs \<Rightarrow> if c = CHR ''-'' \<or> c = CHR ''+'' then cs else s)"

definition entero_texto :: "string \<Rightarrow> bool" where
  \<comment> \<open>an optional sign followed by decimal digits, at least one, and nothing else\<close>
  "entero_texto s = (sin_signo s \<noteq> [] \<and> list_all isdigit_ascii (sin_signo s))"

definition valor_entero :: "string \<Rightarrow> int" where
  \<comment> \<open>the whole number such a text writes\<close>
  "valor_entero s =
     (case s of
        [] \<Rightarrow> 0
      | c # cs \<Rightarrow> if c = CHR ''-'' then - valor_decimal cs else valor_decimal (sin_signo s))"

definition to_numeric :: "(string \<Rightarrow> bool) \<Rightarrow> string \<Rightarrow> numero option" where
  \<comment> \<open>\<^verbatim>\<open>pd.to_numeric(s, errors='coerce')\<close> on one text, \<open>None\<close> standing for NaN.
      A signed text of decimal digits within \<open>2 ^ 53\<close> is that whole number. A text with no
      decimal digit is a number only when it is one of pandas' words for infinity, and
      those hold the letter n: without it the text is NaN. For every other text (blanks,
      an exponent form, a word, a longer number) the parameter \<open>lee_otros\<close> says whether
      pandas reads it as a number.\<close>
  "to_numeric lee_otros s =
     (if entero_texto s \<and> \<bar>valor_entero s\<bar> \<le> 2 ^ 53 then Some (Entero (valor_entero s))
      else if \<not> list_ex isdigit_ascii s \<and> CHR ''n'' \<notin> set s \<and> CHR ''N'' \<notin> set s then None
      else if lee_otros s then Some OtroNumero
      else None)"

subsection \<open>The Valor column and the data set\<close>

definition columna_valor :: "(string \<Rightarrow> bool) \<Rightarrow> string registro list \<Rightarrow> numero option list" where
  \<comment> \<open>The new column
      \<^verbatim>\<open>df_final['Valor'].replace(r'[\$,\.]', '', regex=True).apply(pd.to_numeric, errors='coerce')\<close>,
      one entry for each record, in order.\<close>
  "columna_valor lee_otros df_final =
     map (to_numeric lee_otros) (map quitar_simbolos (map Valor df_final))"

fun dropna :: "string registro list \<Rightarrow> numero option list \<Rightarrow> numero registro list" where
  \<comment> \<open>The records with the new column as their Valor, then
      \<^verbatim>\<open>df_final.dropna(subset=['Valor'])\<close>: the rows whose Valor is NaN are left out.\<close>
  "dropna (r # rs) (v # vs) =
     (case v of
        None \<Rightarrow> dropna rs vs
      | Some x \<Rightarrow>
          \<lparr>NIT_IPS = NIT_IPS r, Nombre_IPS = Nombre_IPS r, Fecha_Giro = Fecha_Giro r,
           Valor = x, Concepto = Concepto r, Entidad = Entidad r\<rparr> # dropna rs vs)"
| "dropna [] vs = []"
| "dropna rs [] = []"

definition limpiar_datos ::
  "(string \<Rightarrow> bool) \<Rightarrow> string \<Rightarrow> string list list \<Rightarrow> numero registro list" where
  \<comment> \<open>The data frame returned is the list of its rows. Of pandas, what it reads beyond
      the whole numbers (\<open>lee_otros\<close>) and the text of a missing cell (\<open>na\<close>) are
      parameters.\<close>
  "limpiar_datos lee_otros na extraccion_bruta =
     (if extraccion_bruta = [] then []
      else
        let df_raw = DataFrame na extraccion_bruta;
            registros_finales = recorrer df_raw []
        in if registros_finales = [] then []
           else dropna registros_finales (columna_valor lee_otros registros_finales))"

subsection \<open>The fetch of one identifier and the run\<close>

record respuesta =
  error_pasos :: bool
  filas_tr :: "string list list"
  error_restaurar :: bool

text \<open>
  What the browser session does for one identifier: \<open>error_pasos\<close> says that a step of
  the \<^verbatim>\<open>try\<close> (navigation, the wait for the iframe, the script, the parse) raises an
  \<^verbatim>\<open>Exception\<close>; \<open>filas_tr\<close> is the page's table, one list of cell texts (as
  \<^verbatim>\<open>get_text(strip=True)\<close> gives them) for each \<^verbatim>\<open>tr\<close>; \<open>error_restaurar\<close> says that
  \<^verbatim>\<open>driver.switch_to.default_content()\<close> raises in the \<^verbatim>\<open>finally\<close>.
\<close>

definition extraer_cuerpo :: "respuesta \<Rightarrow> excepcion + string list list" where
  \<comment> \<open>the body of the \<^verbatim>\<open>try\<close> of \<^verbatim>\<open>extraer_datos_nit\<close>\<close>
  "extraer_cuerpo r =
     (if error_pasos r then Inl WebDriverException
      else Inr (filter (\<lambda>cells. length cells > 5) (filas_tr r)))"

definition extraer_datos_nit :: "(string \<Rightarrow> respuesta) \<Rightarrow> string \<Rightarrow> excepcion + string list list" where
  \<comment> \<open>\<^verbatim>\<open>except Exception: return []\<close>, then the \<^verbatim>\<open>finally\<close>, whose exception replaces
      the value returned\<close>
  "extraer_datos_nit driver nit =
     (let resultado = (case extraer_cuerpo (driver nit) of Inl e \<Rightarrow> [] | Inr filas \<Rightarrow> filas)
      in if error_restaurar (driver nit) then Inl WebDriverException else Inr resultado)"

fun fromkeys :: "'a list \<Rightarrow> 'a list \<Rightarrow> 'a list" where
  \<comment> \<open>\<^verbatim>\<open>list(dict.fromkeys(xs))\<close>: the keys in the order of their first insertion\<close>
  "fromkeys [] claves = claves"
| "fromkeys (x # xs) claves = fromkeys xs (if x \<in> set claves then claves else claves @ [x])"

record estado =
  sesion_abierta :: bool
  consultados :: "string list"
  EXTRACCION_BRUTA :: "string list list"

text \<open>
  The state of a run: whether the browser session created by \<^verbatim>\<open>configurar_driver\<close> is
  still open (\<^verbatim>\<open>driver.quit()\<close> closes it), the identifiers \<^verbatim>\<open>extraer_datos_nit\<close> was
  called for, in order, and the rows accumulated.
\<close>

fun bucle :: "(string \<Rightarrow> respuesta) \<Rightarrow> string list \<Rightarrow> estado \<Rightarrow> estado" where
  \<comment> \<open>\<^verbatim>\<open>for i, nit in enumerate(nits_unicos)\<close> with its \<^verbatim>\<open>try\<close> / \<^verbatim>\<open>except Exception\<close>\<close>
  "bucle driver [] st = st"
| "bucle driver (nit # nits) st =
     (let st1 = st\<lparr>consultados := consultados st @ [nit]\<rparr>
      in case extraer_datos_nit driver nit of
           Inl e \<Rightarrow> bucle driver nits st1
         | Inr filas \<Rightarrow> bucle driver nits (st1\<lparr>EXTRACCION_BRUTA := EXTRACCION_BRUTA st1 @ filas\<rparr>))"

record entorno =
  chrome_ok :: bool
  google_ok :: bool
  portal :: "string \<Rightarrow> respuesta"

text \<open>
  The world of one run: \<open>chrome_ok\<close> says that \<^verbatim>\<open>webdriver.Chrome(options=options)\<close>
  returns a driver, \<open>google_ok\<close> that the test navigation of \<^verbatim>\<open>main\<close> does not raise,
  \<open>portal\<close> is the session's behaviour for each identifier.
\<close>

datatype salida = SinNavegador | DriverNoFunciona | Terminado "numero registro list"

definition main ::
  "(string \<Rightarrow> bool) \<Rightarrow> string \<Rightarrow> entorno \<Rightarrow> string list \<Rightarrow> estado \<times> salida" where
  \<comment> \<open>\<^verbatim>\<open>main()\<close> on the identifier list \<open>NITS_PROCESAR\<close>: the final state and how the run
      ended (\<open>SinNavegador\<close>: \<^verbatim>\<open>configurar_driver\<close> raised; \<open>DriverNoFunciona\<close>: the
      \<^verbatim>\<open>return\<close> of the driver test; \<open>Terminado df_final\<close>: the end of the function).\<close>
  "main lee_otros na env NITS_PROCESAR =
     (let nits_unicos = fromkeys NITS_PROCESAR [] in
      if \<not> chrome_ok env
      then (\<lparr>sesion_abierta = False, consultados = [], EXTRACCION_BRUTA = []\<rparr>, SinNavegador)
      else
        let st0 = \<lparr>sesion_abierta = True, consultados = [], EXTRACCION_BRUTA = []\<rparr> in
        if \<not> google_ok env then (st0, DriverNoFunciona)
        else
          let st1 = bucle (portal env) nits_unicos st0;
              st2 = st1\<lparr>sesion_abierta := False\<rparr>
          in (st2, Terminado (limpiar_datos lee_otros na (EXTRACCION_BRUTA st2))))"

subsection \<open>The scan as the specification words it\<close>

definition califica :: "string list \<Rightarrow> nat \<Rightarrow> bool" where
  \<comment> \<open>The cell at \<open>idx\<close> is an anchor with a value candidate in range, and it passes the
      value-candidate gate and the dash-split arity check.\<close>
  "califica cols idx =
     (idx + 2 < length cols \<and> str_in ''NIT-'' (cols ! idx) \<and>
      \<not> sin_monto (cols ! (idx + 2)) \<and> 3 \<le> length (py_split CHR ''-'' 2 (cols ! idx)))"

definition registro_en :: "string list \<Rightarrow> nat \<Rightarrow> string registro" where
  \<comment> \<open>The record read at fixed offsets from the anchor at \<open>idx\<close>.\<close>
  "registro_en cols idx =
     \<lparr>NIT_IPS = py_split CHR ''-'' 2 (cols ! idx) ! 1,
      Nombre_IPS = py_split CHR ''-'' 2 (cols ! idx) ! 2,
      Fecha_Giro = cols ! (idx + 1),
      Valor = cols ! (idx + 2),
      Concepto = (if idx + 3 < length cols then cols ! (idx + 3) else ''N/A''),
      Entidad = (if idx + 4 < length cols then cols ! (idx + 4) else ''N/A'')\<rparr>"

subsection \<open>The run as the specification words it\<close>

definition filas_validas :: "respuesta \<Rightarrow> string list list" where
  \<comment> \<open>The raw rows of an identifier's page: the table rows of more than five cells.\<close>
  "filas_validas r = filter (\<lambda>cells. length cells > 5) (filas_tr r)"

definition exito :: "respuesta \<Rightarrow> bool" where
  \<comment> \<open>The identifier succeeded: nothing raised, neither in the steps of the fetch nor in
      the restoration of the top-level document.\<close>
  "exito r = (\<not> error_pasos r \<and> \<not> error_restaurar r)"

section \<open>Properties\<close>

subsection \<open>Auxiliary facts\<close>

lemma DataFrame_una: "DataFrame na [fila] = [fila]"
  by (simp add: DataFrame_def)

lemma py_split_length: "length (py_split sep n s) \<le> Suc n"
  by (induction sep n s rule: py_split.induct) auto

lemma escanear_fuera: "length cols \<le> idx + 2 \<Longrightarrow> escanear cols idx = None"
proof (induction cols idx rule: escanear.induct)
  case (1 cols idx)
  show ?case
  proof (cases "idx < length cols")
    case True
    with 1 have "escanear cols (idx + 1) = None" by simp
    with True 1 show ?thesis by (simp add: escanear.simps [of cols idx])
  next
    case False
    then show ?thesis by (simp add: escanear.simps [of cols idx])
  qed
qed

lemma intento_en_rango:
  assumes "idx + 2 < length cols"
  shows "intento cols idx (cols ! idx) =
           (if sin_monto (cols ! (idx + 2)) then Inr None
            else if 3 \<le> length (py_split CHR ''-'' 2 (cols ! idx))
                 then Inr (Some (registro_en cols idx))
                 else Inr None)"
  using assms
  by (simp add: intento_def bind_exc_def getitem_def registro_en_def Let_def)

lemma escanear_paso:
  assumes "idx < length cols"
  shows "escanear cols idx =
           (if califica cols idx then Some (registro_en cols idx) else escanear cols (idx + 1))"
proof (cases "idx + 2 < length cols")
  case True
  then show ?thesis
    using assms
    by (simp add: escanear.simps [of cols idx] intento_en_rango califica_def Let_def)
next
  case False
  then show ?thesis
    using assms by (simp add: escanear.simps [of cols idx] califica_def)
qed




subsection \<open>The end-to-end scenario\<close>

lemma entero_texto_tiene_digito:
  assumes "entero_texto s"
  shows "list_ex isdigit_ascii s"
proof (cases s)
  case Nil
  with assms show ?thesis by (simp add: entero_texto_def sin_signo_def)
next
  case (Cons c cs)
  show ?thesis
  proof (cases "c = CHR ''-'' \<or> c = CHR ''+''")
    case True
    with Cons assms have "cs \<noteq> []" and "list_all isdigit_ascii cs"
      by (auto simp add: entero_texto_def sin_signo_def)
    then have "list_ex isdigit_ascii cs" by (cases cs) simp_all
    with Cons show ?thesis by simp
  next
    case False
    with Cons assms have "isdigit_ascii c"
      by (auto simp add: entero_texto_def sin_signo_def)
    with Cons show ?thesis by simp
  qed
qed

lemma to_numeric_de_entero:
  assumes "entero_texto s" and "valor_entero s = n" and "\<bar>n\<bar> \<le> 2 ^ 53"
  shows "to_numeric lee_otros s = Some (Entero n)"
  using assms by (simp add: to_numeric_def)

lemma to_numeric_nan:
  assumes "\<not> list_ex isdigit_ascii s" and "CHR ''n'' \<notin> set s" and "CHR ''N'' \<notin> set s"
  shows "to_numeric lee_otros s = None"
proof -
  from assms(1) have "\<not> entero_texto s"
    using entero_texto_tiene_digito by blast
  with assms show ?thesis by (simp add: to_numeric_def)
qed

lemma limpiar_datos_una_fila:
  "limpiar_datos lee_otros na [fila] =
     dropna (recorrer [fila] []) (columna_valor lee_otros (recorrer [fila] []))"
  by (cases "recorrer [fila] []") (simp_all add: limpiar_datos_def DataFrame_una Let_def)

text \<open>
  C1. For the corpus of the single raw row x, NIT-802010614-Hospital San Jose, 15/01/2025,
  $5.000.000, Anticipo, ADRES, \<open>limpiar_datos\<close> returns exactly one record, with NIT_IPS
  802010614, Nombre_IPS Hospital San Jose, Fecha_Giro 15/01/2025, the number 5000000 as
  Valor, Concepto Anticipo and Entidad ADRES. A frame of one row has no missing cell, and
  5.000.000 without its full stops is a whole number, so the result is the same for every
  text \<open>na\<close> of a missing cell and whatever pandas reads beyond the whole numbers.
\<close>

theorem limpiar_datos_escenario:
  "limpiar_datos lee_otros na
     [[''x'', ''NIT-802010614-Hospital San Jose'', ''15/01/2025'', ''$5.000.000'',
       ''Anticipo'', ''ADRES'']] =
   [\<lparr>NIT_IPS = ''802010614'', Nombre_IPS = ''Hospital San Jose'',
      Fecha_Giro = ''15/01/2025'', Valor = Entero 5000000, Concepto = ''Anticipo'',
      Entidad = ''ADRES''\<rparr>]"
proof -
  let ?fila = "[''x'', ''NIT-802010614-Hospital San Jose'', ''15/01/2025'', ''$5.000.000'',
                ''Anticipo'', ''ADRES'']"
  let ?r = "\<lparr>NIT_IPS = ''802010614'', Nombre_IPS = ''Hospital San Jose'',
              Fecha_Giro = ''15/01/2025'', Valor = ''$5.000.000'', Concepto = ''Anticipo'',
              Entidad = ''ADRES''\<rparr>"
  have rec: "recorrer [?fila] [] = [?r]"
    by code_simp
  have q: "quitar_simbolos ''$5.000.000'' = ''5000000''"
    by code_simp
  have t: "entero_texto ''5000000''" and v: "valor_entero ''5000000'' = 5000000"
    by code_simp+
  have n: "to_numeric lee_otros ''5000000'' = Some (Entero 5000000)"
    using t v by (rule to_numeric_de_entero) simp
  show ?thesis
    unfolding limpiar_datos_una_fila rec by (simp add: columna_valor_def q n)
qed

subsection \<open>Short rows\<close>

text \<open>
  C2, as the code has it. A row whose compact cell list has two cells or fewer gives no
  record: the scan returns nothing for it and the accumulated records are unchanged. The
  bound is two and not five, because the scan asks only for the value candidate two cells
  after the anchor and fills Concepto and Entidad with N/A.
\<close>

theorem fila_corta_sin_registro:
  assumes "length (fila_cols row) \<le> 2"
  shows "escanear (fila_cols row) 0 = None \<and> recorrer (row # filas) acc = recorrer filas acc"
proof -
  from assms have "escanear (fila_cols row) 0 = None"
    by (intro escanear_fuera) simp
  then show ?thesis by simp
qed

theorem fila_corta_sin_registro_witness:
  "escanear (fila_cols [''NIT-1-A'', '' '', ''$5'', '''', '''', '''']) 0 = None"
proof -
  have "length (fila_cols [''NIT-1-A'', '' '', ''$5'', '''', '''', '''']) \<le> 2"
    by code_simp
  from fila_corta_sin_registro [OF this] show ?thesis by simp
qed

text \<open>
  C2 as stated fails: a raw row of six cells of which three are not empty (so at most
  five after stripping) gives a record. Its value is a whole number, so what pandas reads
  beyond the whole numbers plays no part in it (here: nothing).
\<close>

theorem fila_de_tres_celdas_counterexample:
  "length (fila_cols ['''', ''NIT-1-A'', '''', ''01/01/2025'', ''$5'', '''']) \<le> 5 \<and>
   limpiar_datos (\<lambda>s. False) ''None''
     [['''', ''NIT-1-A'', '''', ''01/01/2025'', ''$5'', '''']] =
   [\<lparr>NIT_IPS = ''1'', Nombre_IPS = ''A'', Fecha_Giro = ''01/01/2025'', Valor = Entero 5,
      Concepto = ''N/A'', Entidad = ''N/A''\<rparr>]"
  by code_simp

subsection \<open>The value-candidate gate\<close>

text \<open>
  C3. An anchor cell (a cell containing NIT-) whose value candidate, two cells further,
  has neither a dollar sign nor a digit contributes no record: the body of the try ends
  with continue, and the scan from that cell is the scan from the next cell.
\<close>

theorem ancla_sin_monto_se_omite:
  assumes "idx + 2 < length cols"
    and "str_in ''NIT-'' (cols ! idx)"
    and "sin_monto (cols ! (idx + 2))"
  shows "intento cols idx (cols ! idx) = Inr None \<and> escanear cols idx = escanear cols (idx + 1)"
proof -
  from assms(1) have lt: "idx < length cols" by simp
  from assms(3) have "\<not> califica cols idx" by (simp add: califica_def)
  with assms show ?thesis
    by (simp add: intento_en_rango escanear_paso [OF lt])
qed

theorem ancla_sin_monto_se_omite_witness:
  "intento [''foo'', ''NIT-123-ClinicName'', ''note'', ''bar''] 1 ''NIT-123-ClinicName'' = Inr None \<and>
   escanear [''foo'', ''NIT-123-ClinicName'', ''note'', ''bar''] 1 = None"
proof -
  let ?cols = "[''foo'', ''NIT-123-ClinicName'', ''note'', ''bar'']"
  have a: "1 + 2 < length ?cols" by simp
  have b: "str_in ''NIT-'' (?cols ! 1)" by code_simp
  have c: "sin_monto (?cols ! (1 + 2))" by code_simp
  have d: "escanear ?cols (1 + 1) = None" by code_simp
  from ancla_sin_monto_se_omite [OF a b c] d show ?thesis by simp
qed

subsection \<open>One record for each row\<close>


subsection \<open>The dash split\<close>

lemma py_split_sep:
  assumes "sep \<notin> set a"
  shows "py_split sep (Suc n) (a @ sep # resto) = a # py_split sep n resto"
proof -
  from assms have "\<forall>x\<in>set a. x \<noteq> sep" by auto
  then have "takeWhile (\<lambda>c. c \<noteq> sep) (a @ sep # resto) = a"
    and "dropWhile (\<lambda>c. c \<noteq> sep) (a @ sep # resto) = sep # resto"
    by (simp_all add: takeWhile_append2 dropWhile_append2)
  then show ?thesis by simp
qed

lemma py_split_dos:
  assumes "sep \<notin> set a" and "sep \<notin> set b"
  shows "py_split sep 2 (a @ sep # b @ sep # c) = [a, b, c]"
proof -
  have "py_split sep (Suc (Suc 0)) (a @ sep # b @ sep # c) = a # py_split sep (Suc 0) (b @ sep # c)"
    using assms(1) by (rule py_split_sep)
  also have "py_split sep (Suc 0) (b @ sep # c) = b # py_split sep 0 c"
    using assms(2) by (rule py_split_sep)
  finally show ?thesis by (simp add: numeral_2_eq_2)
qed

text \<open>
  C5. For an anchor whose value candidate passes the gate, the anchor text is split on the
  dash into at most three parts. With three parts the scan returns a record whose NIT_IPS
  is the second part and whose Nombre_IPS is the third; with fewer than three parts the
  body of the try ends without a record and the scan goes on with the next cell.
\<close>

theorem partes_del_ancla:
  assumes "idx + 2 < length cols"
    and "str_in ''NIT-'' (cols ! idx)"
    and "\<not> sin_monto (cols ! (idx + 2))"
  shows "length (py_split CHR ''-'' 2 (cols ! idx)) \<le> 3 \<and>
    (if 3 \<le> length (py_split CHR ''-'' 2 (cols ! idx))
     then map_option NIT_IPS (escanear cols idx) = Some (py_split CHR ''-'' 2 (cols ! idx) ! 1) \<and>
          map_option Nombre_IPS (escanear cols idx) = Some (py_split CHR ''-'' 2 (cols ! idx) ! 2)
     else intento cols idx (cols ! idx) = Inr None \<and>
          escanear cols idx = escanear cols (idx + 1))"
proof -
  from assms(1) have lt: "idx < length cols" by simp
  have len: "length (py_split CHR ''-'' 2 (cols ! idx)) \<le> 3"
    using py_split_length [of "CHR ''-''" 2 "cols ! idx"] by simp
  show ?thesis
  proof (cases "3 \<le> length (py_split CHR ''-'' 2 (cols ! idx))")
    case True
    with assms have "califica cols idx" by (simp add: califica_def)
    then have "escanear cols idx = Some (registro_en cols idx)"
      by (simp add: escanear_paso [OF lt])
    with True len show ?thesis by (simp add: registro_en_def)
  next
    case False
    then have "\<not> califica cols idx" by (simp add: califica_def)
    with False assms len show ?thesis
      by (simp add: intento_en_rango escanear_paso [OF lt])
  qed
qed

theorem partes_del_ancla_witness:
  "map_option NIT_IPS (escanear [''NIT-900123456-Clinica Central'', ''01/02/2025'', ''$10''] 0) =
     Some ''900123456'' \<and>
   map_option Nombre_IPS (escanear [''NIT-900123456-Clinica Central'', ''01/02/2025'', ''$10''] 0) =
     Some ''Clinica Central'' \<and>
   intento [''NIT-900123456'', ''01/02/2025'', ''$10''] 0 ''NIT-900123456'' = Inr None \<and>
   escanear [''NIT-900123456'', ''01/02/2025'', ''$10''] 0 = None"
proof -
  let ?c1 = "[''NIT-900123456-Clinica Central'', ''01/02/2025'', ''$10'']"
  let ?c2 = "[''NIT-900123456'', ''01/02/2025'', ''$10'']"
  have a1: "0 + 2 < length ?c1" and a2: "0 + 2 < length ?c2" by simp_all
  have b1: "str_in ''NIT-'' (?c1 ! 0)" and b2: "str_in ''NIT-'' (?c2 ! 0)" by code_simp+
  have g1: "\<not> sin_monto (?c1 ! (0 + 2))" and g2: "\<not> sin_monto (?c2 ! (0 + 2))" by code_simp+
  have p1: "py_split CHR ''-'' 2 (?c1 ! 0) = [''NIT'', ''900123456'', ''Clinica Central'']"
    by code_simp
  have p2: "py_split CHR ''-'' 2 (?c2 ! 0) = [''NIT'', ''900123456'']"
    by code_simp
  have d: "escanear ?c2 (0 + 1) = None" by code_simp
  from partes_del_ancla [OF a1 b1 g1] have
    "map_option NIT_IPS (escanear ?c1 0) = Some ''900123456'' \<and>
     map_option Nombre_IPS (escanear ?c1 0) = Some ''Clinica Central''"
    unfolding p1 by simp
  moreover from partes_del_ancla [OF a2 b2 g2] d have
    "intento ?c2 0 ''NIT-900123456'' = Inr None \<and> escanear ?c2 0 = None"
    unfolding p2 by simp
  ultimately show ?thesis by simp
qed

text \<open>
  C10. The split is made at the first two dashes only. An anchor text a-b-c, with no dash
  in a and none in b, splits into a, b and c, whatever dashes c holds: the record's
  NIT_IPS is b and its Nombre_IPS is the whole remainder c. So NIT-123-Clinica-Central
  gives 123 and Clinica-Central.
\<close>

theorem nombre_conserva_guiones:
  assumes "CHR ''-'' \<notin> set a" and "CHR ''-'' \<notin> set b"
  shows "py_split CHR ''-'' 2 (a @ ''-'' @ b @ ''-'' @ c) = [a, b, c] \<and>
    (idx + 2 < length cols \<and> cols ! idx = a @ ''-'' @ b @ ''-'' @ c \<and>
     str_in ''NIT-'' (cols ! idx) \<and> \<not> sin_monto (cols ! (idx + 2)) \<longrightarrow>
       map_option NIT_IPS (escanear cols idx) = Some b \<and>
       map_option Nombre_IPS (escanear cols idx) = Some c)"
proof -
  have p: "py_split CHR ''-'' 2 (a @ ''-'' @ b @ ''-'' @ c) = [a, b, c]"
    using py_split_dos [OF assms, of c] by simp
  have "map_option NIT_IPS (escanear cols idx) = Some b \<and>
       map_option Nombre_IPS (escanear cols idx) = Some c"
    if h: "idx + 2 < length cols" "cols ! idx = a @ ''-'' @ b @ ''-'' @ c"
      "str_in ''NIT-'' (cols ! idx)" "\<not> sin_monto (cols ! (idx + 2))"
  proof -
    from h(1) have lt: "idx < length cols" by simp
    from h p have "califica cols idx" by (simp add: califica_def)
    then have "escanear cols idx = Some (registro_en cols idx)"
      by (simp add: escanear_paso [OF lt])
    with h(2) p show ?thesis by (simp add: registro_en_def)
  qed
  with p show ?thesis by blast
qed

theorem nombre_conserva_guiones_witness:
  "py_split CHR ''-'' 2 ''NIT-123-Clinica-Central'' = [''NIT'', ''123'', ''Clinica-Central''] \<and>
   map_option NIT_IPS (escanear [''NIT-123-Clinica-Central'', ''01/02/2025'', ''$10''] 0) =
     Some ''123'' \<and>
   map_option Nombre_IPS (escanear [''NIT-123-Clinica-Central'', ''01/02/2025'', ''$10''] 0) =
     Some ''Clinica-Central''"
proof -
  let ?cols = "[''NIT-123-Clinica-Central'', ''01/02/2025'', ''$10'']"
  have a: "CHR ''-'' \<notin> set ''NIT''" and b: "CHR ''-'' \<notin> set ''123''" by simp_all
  have s: "str_in ''NIT-'' (?cols ! 0)" by code_simp
  have g: "\<not> sin_monto (?cols ! (0 + 2))" by code_simp
  from nombre_conserva_guiones [OF a b, of "''Clinica-Central''" 0 ?cols] s g
  show ?thesis by simp
qed

subsection \<open>The numeric value\<close>

lemma dropna_filtra:
  "map (\<lambda>r. (NIT_IPS r, Nombre_IPS r, Fecha_Giro r, Concepto r, Entidad r))
     (dropna rs (map g rs)) =
   map (\<lambda>r. (NIT_IPS r, Nombre_IPS r, Fecha_Giro r, Concepto r, Entidad r))
     (filter (\<lambda>r. g r \<noteq> None) rs)"
  by (induction rs) (auto split: option.splits)

lemma dropna_valor:
  "map (\<lambda>r. Some (Valor r)) (dropna rs (map g rs)) = map g (filter (\<lambda>r. g r \<noteq> None) rs)"
  by (induction rs) (auto split: option.splits)

lemma columna_valor_map:
  "columna_valor lee_otros rs = map (\<lambda>r. to_numeric lee_otros (quitar_simbolos (Valor r))) rs"
  by (simp add: columna_valor_def)

lemma limpiar_datos_dropna:
  "limpiar_datos lee_otros na corpus =
     dropna (recorrer (DataFrame na corpus) [])
       (columna_valor lee_otros (recorrer (DataFrame na corpus) []))"
proof (cases "corpus = []")
  case True
  then show ?thesis by (simp add: limpiar_datos_def DataFrame_def)
next
  case False
  then show ?thesis
    by (cases "recorrer (DataFrame na corpus) []") (simp_all add: limpiar_datos_def Let_def)
qed

text \<open>
  C6. After the scan, the Valor text of each record loses its dollar signs, commas and
  full stops and is read as a number: the records kept are those whose stripped text
  pandas reads, in their order and with their other fields, and the Valor of each is the
  number read; the others are dropped. So $1.234.567 becomes 1234567 and $0 becomes 0,
  also beside a record that is dropped, and a record whose stripped text is abc is
  dropped. This holds whatever pandas reads beyond the whole numbers.
\<close>

theorem valor_numerico:
  "limpiar_datos lee_otros na corpus =
     dropna (recorrer (DataFrame na corpus) [])
       (columna_valor lee_otros (recorrer (DataFrame na corpus) [])) \<and>
   map (\<lambda>r. (NIT_IPS r, Nombre_IPS r, Fecha_Giro r, Concepto r, Entidad r))
       (dropna rs (columna_valor lee_otros rs)) =
     map (\<lambda>r. (NIT_IPS r, Nombre_IPS r, Fecha_Giro r, Concepto r, Entidad r))
       (filter (\<lambda>r. to_numeric lee_otros (quitar_simbolos (Valor r)) \<noteq> None) rs) \<and>
   map (\<lambda>r. Some (Valor r)) (dropna rs (columna_valor lee_otros rs)) =
     map (\<lambda>r. to_numeric lee_otros (quitar_simbolos (Valor r)))
       (filter (\<lambda>r. to_numeric lee_otros (quitar_simbolos (Valor r)) \<noteq> None) rs) \<and>
   set (quitar_simbolos s) = set s - {CHR ''$'', CHR '','', CHR ''.''} \<and>
   to_numeric lee_otros (quitar_simbolos ''$1.234.567'') = Some (Entero 1234567) \<and>
   to_numeric lee_otros (quitar_simbolos ''$0'') = Some (Entero 0) \<and>
   to_numeric lee_otros (quitar_simbolos ''abc'') = None \<and>
   dropna [r\<lparr>Valor := ''abc''\<rparr>] (columna_valor lee_otros [r\<lparr>Valor := ''abc''\<rparr>]) = [] \<and>
   limpiar_datos lee_otros na
     [[''NIT-1-A'', ''01/02/2025'', ''$1.234.567''], [''NIT-2-B'', ''02/02/2025'', ''$abc''],
      [''NIT-3-C'', ''03/02/2025'', ''$0'']] =
     [\<lparr>NIT_IPS = ''1'', Nombre_IPS = ''A'', Fecha_Giro = ''01/02/2025'',
        Valor = Entero 1234567, Concepto = ''N/A'', Entidad = ''N/A''\<rparr>,
      \<lparr>NIT_IPS = ''3'', Nombre_IPS = ''C'', Fecha_Giro = ''03/02/2025'',
        Valor = Entero 0, Concepto = ''N/A'', Entidad = ''N/A''\<rparr>]"
proof -
  have q1: "quitar_simbolos ''$1.234.567'' = ''1234567''" by code_simp
  have t1: "entero_texto ''1234567''" and v1: "valor_entero ''1234567'' = 1234567"
    by code_simp+
  have e1: "to_numeric lee_otros (quitar_simbolos ''$1.234.567'') = Some (Entero 1234567)"
    unfolding q1 using t1 v1 by (rule to_numeric_de_entero) simp
  have q2: "quitar_simbolos ''$0'' = ''0''" by code_simp
  have t2: "entero_texto ''0''" and v2: "valor_entero ''0'' = 0"
    by code_simp+
  have e2: "to_numeric lee_otros (quitar_simbolos ''$0'') = Some (Entero 0)"
    unfolding q2 using t2 v2 by (rule to_numeric_de_entero) simp
  have q3: "quitar_simbolos ''abc'' = ''abc''" and q4: "quitar_simbolos ''$abc'' = ''abc''"
    by code_simp+
  have d3: "\<not> list_ex isdigit_ascii ''abc''" by code_simp
  have n3: "to_numeric lee_otros ''abc'' = None"
    using d3 by (rule to_numeric_nan) simp_all
  have e3: "to_numeric lee_otros (quitar_simbolos ''abc'') = None"
    unfolding q3 by (rule n3)
  have e4: "dropna [r\<lparr>Valor := ''abc''\<rparr>] (columna_valor lee_otros [r\<lparr>Valor := ''abc''\<rparr>]) = []"
    by (simp add: columna_valor_def e3)
  have df: "DataFrame na
     [[''NIT-1-A'', ''01/02/2025'', ''$1.234.567''], [''NIT-2-B'', ''02/02/2025'', ''$abc''],
      [''NIT-3-C'', ''03/02/2025'', ''$0'']] =
     [[''NIT-1-A'', ''01/02/2025'', ''$1.234.567''], [''NIT-2-B'', ''02/02/2025'', ''$abc''],
      [''NIT-3-C'', ''03/02/2025'', ''$0'']]"
    by (simp add: DataFrame_def)
  have rc: "recorrer
     [[''NIT-1-A'', ''01/02/2025'', ''$1.234.567''], [''NIT-2-B'', ''02/02/2025'', ''$abc''],
      [''NIT-3-C'', ''03/02/2025'', ''$0'']] [] =
     [\<lparr>NIT_IPS = ''1'', Nombre_IPS = ''A'', Fecha_Giro = ''01/02/2025'',
        Valor = ''$1.234.567'', Concepto = ''N/A'', Entidad = ''N/A''\<rparr>,
      \<lparr>NIT_IPS = ''2'', Nombre_IPS = ''B'', Fecha_Giro = ''02/02/2025'',
        Valor = ''$abc'', Concepto = ''N/A'', Entidad = ''N/A''\<rparr>,
      \<lparr>NIT_IPS = ''3'', Nombre_IPS = ''C'', Fecha_Giro = ''03/02/2025'',
        Valor = ''$0'', Concepto = ''N/A'', Entidad = ''N/A''\<rparr>]"
    by code_simp
  have e5: "limpiar_datos lee_otros na
     [[''NIT-1-A'', ''01/02/2025'', ''$1.234.567''], [''NIT-2-B'', ''02/02/2025'', ''$abc''],
      [''NIT-3-C'', ''03/02/2025'', ''$0'']] =
     [\<lparr>NIT_IPS = ''1'', Nombre_IPS = ''A'', Fecha_Giro = ''01/02/2025'',
        Valor = Entero 1234567, Concepto = ''N/A'', Entidad = ''N/A''\<rparr>,
      \<lparr>NIT_IPS = ''3'', Nombre_IPS = ''C'', Fecha_Giro = ''03/02/2025'',
        Valor = Entero 0, Concepto = ''N/A'', Entidad = ''N/A''\<rparr>]"
    unfolding limpiar_datos_dropna df rc
    using e1 e2 n3 by (simp add: columna_valor_def q4)
  have s: "set (quitar_simbolos s) = set s - {CHR ''$'', CHR '','', CHR ''.''}"
    by (auto simp add: quitar_simbolos_def)
  have f1: "map (\<lambda>r. (NIT_IPS r, Nombre_IPS r, Fecha_Giro r, Concepto r, Entidad r))
       (dropna rs (columna_valor lee_otros rs)) =
     map (\<lambda>r. (NIT_IPS r, Nombre_IPS r, Fecha_Giro r, Concepto r, Entidad r))
       (filter (\<lambda>r. to_numeric lee_otros (quitar_simbolos (Valor r)) \<noteq> None) rs)"
    unfolding columna_valor_map by (rule dropna_filtra)
  have f2: "map (\<lambda>r. Some (Valor r)) (dropna rs (columna_valor lee_otros rs)) =
     map (\<lambda>r. to_numeric lee_otros (quitar_simbolos (Valor r)))
       (filter (\<lambda>r. to_numeric lee_otros (quitar_simbolos (Valor r)) \<noteq> None) rs)"
    unfolding columna_valor_map by (rule dropna_valor)
  show ?thesis
    using limpiar_datos_dropna [of lee_otros na corpus] f1 f2 s e1 e2 e3 e4 e5
    by blast
qed

subsection \<open>Offsets out of range\<close>

lemma intento_no_lanza:
  assumes "idx + 2 < length cols"
  shows "intento cols idx cell \<noteq> Inl e"
  using assms
  by (simp add: intento_def bind_exc_def getitem_def Let_def)

text \<open>
  C7. For an anchor at \<open>idx\<close> that is accepted (\<open>califica\<close>), the body of the try raises
  nothing and gives the record; when the offset \<open>idx + 3\<close> is out of range its Concepto is
  N/A, and when \<open>idx + 4\<close> is out of range its Entidad is N/A. With the value candidate in
  range the body raises nothing, whatever the anchor text. An anchor whose value candidate
  \<open>idx + 2\<close> is out of range gives no record.
\<close>

theorem desplazamientos_fuera_de_rango:
  "(califica cols idx \<longrightarrow>
      intento cols idx (cols ! idx) = Inr (Some (registro_en cols idx)) \<and>
      escanear cols idx = Some (registro_en cols idx) \<and>
      (length cols \<le> idx + 3 \<longrightarrow> map_option Concepto (escanear cols idx) = Some ''N/A'') \<and>
      (length cols \<le> idx + 4 \<longrightarrow> map_option Entidad (escanear cols idx) = Some ''N/A'')) \<and>
   (idx + 2 < length cols \<longrightarrow> intento cols idx cell \<noteq> Inl e) \<and>
   (length cols \<le> idx + 2 \<longrightarrow> escanear cols idx = None)"
proof -
  have a: "intento cols idx (cols ! idx) = Inr (Some (registro_en cols idx)) \<and>
      escanear cols idx = Some (registro_en cols idx) \<and>
      (length cols \<le> idx + 3 \<longrightarrow> map_option Concepto (escanear cols idx) = Some ''N/A'') \<and>
      (length cols \<le> idx + 4 \<longrightarrow> map_option Entidad (escanear cols idx) = Some ''N/A'')"
    if c: "califica cols idx"
  proof -
    from c have r: "idx + 2 < length cols" by (simp add: califica_def)
    then have lt: "idx < length cols" by simp
    from c r have i: "intento cols idx (cols ! idx) = Inr (Some (registro_en cols idx))"
      by (simp add: intento_en_rango califica_def)
    from c have e: "escanear cols idx = Some (registro_en cols idx)"
      by (simp add: escanear_paso [OF lt])
    show ?thesis unfolding e using i by (simp add: registro_en_def)
  qed
  show ?thesis
    using a intento_no_lanza [of idx cols cell e] escanear_fuera [of cols idx] by blast
qed

theorem desplazamientos_fuera_de_rango_witness:
  "intento [''NIT-1-A'', ''01/02/2025'', ''$5''] 0 ''NIT-1-A'' =
     Inr (Some \<lparr>NIT_IPS = ''1'', Nombre_IPS = ''A'', Fecha_Giro = ''01/02/2025'',
                 Valor = ''$5'', Concepto = ''N/A'', Entidad = ''N/A''\<rparr>) \<and>
   map_option Concepto (escanear [''NIT-1-A'', ''01/02/2025'', ''$5''] 0) = Some ''N/A'' \<and>
   map_option Entidad (escanear [''NIT-1-A'', ''01/02/2025'', ''$5''] 0) = Some ''N/A'' \<and>
   escanear [''NIT-1-A'', ''01/02/2025''] 0 = None"
proof -
  let ?c = "[''NIT-1-A'', ''01/02/2025'', ''$5'']"
  have q: "califica ?c 0" by code_simp
  have r: "registro_en ?c 0 = \<lparr>NIT_IPS = ''1'', Nombre_IPS = ''A'', Fecha_Giro = ''01/02/2025'',
                 Valor = ''$5'', Concepto = ''N/A'', Entidad = ''N/A''\<rparr>" by code_simp
  from desplazamientos_fuera_de_rango [of ?c 0 "''NIT-1-A''" IndexError] q r
  have "intento ?c 0 ''NIT-1-A'' =
     Inr (Some \<lparr>NIT_IPS = ''1'', Nombre_IPS = ''A'', Fecha_Giro = ''01/02/2025'',
                 Valor = ''$5'', Concepto = ''N/A'', Entidad = ''N/A''\<rparr>) \<and>
   map_option Concepto (escanear ?c 0) = Some ''N/A'' \<and>
   map_option Entidad (escanear ?c 0) = Some ''N/A''"
    by simp
  moreover
  from desplazamientos_fuera_de_rango [of "[''NIT-1-A'', ''01/02/2025'']" 0 "''NIT-1-A''" IndexError]
  have "escanear [''NIT-1-A'', ''01/02/2025''] 0 = None" by simp
  ultimately show ?thesis by simp
qed

subsection \<open>The run\<close>

lemma extraer_datos_nit_casos:
  "extraer_datos_nit driver nit =
     (if error_restaurar (driver nit) then Inl WebDriverException
      else if error_pasos (driver nit) then Inr [] else Inr (filas_validas (driver nit)))"
  by (simp add: extraer_datos_nit_def extraer_cuerpo_def filas_validas_def)

lemma bucle_estado:
  "bucle driver nits st =
     st\<lparr>consultados := consultados st @ nits,
        EXTRACCION_BRUTA := EXTRACCION_BRUTA st @
          concat (map (\<lambda>nit. filas_validas (driver nit)) (filter (\<lambda>nit. exito (driver nit)) nits))\<rparr>"
proof (induction nits arbitrary: st)
  case Nil
  then show ?case by simp
next
  case (Cons nit nits)
  show ?case
    by (simp add: Cons.IH extraer_datos_nit_casos exito_def Let_def)
qed

text \<open>
  C8, what the code does. Once the browser session exists, it is still open when
  \<open>main\<close> ends exactly when the driver test failed: the \<^verbatim>\<open>return\<close> of that branch
  leaves \<open>main\<close> before \<^verbatim>\<open>driver.quit()\<close>, which only the end of the function reaches.
\<close>

theorem sesion_al_terminar:
  assumes "chrome_ok env"
  shows "sesion_abierta (fst (main lee_otros na env NITS)) = (\<not> google_ok env)"
  using assms by (simp add: main_def Let_def)

theorem sesion_al_terminar_witness:
  "sesion_abierta (fst (main (\<lambda>s. False) ''None''
      \<lparr>chrome_ok = True, google_ok = False,
       portal = (\<lambda>nit. \<lparr>error_pasos = False, filas_tr = [], error_restaurar = False\<rparr>)\<rparr>
      [''890303208'', ''816001182'']))"
proof -
  let ?env = "\<lparr>chrome_ok = True, google_ok = False,
       portal = (\<lambda>nit. \<lparr>error_pasos = False, filas_tr = [], error_restaurar = False\<rparr>)\<rparr>"
  have a: "chrome_ok ?env" by simp
  from sesion_al_terminar [OF a, of "\<lambda>s. False" "''None''" "[''890303208'', ''816001182'']"]
  show ?thesis by simp
qed

text \<open>
  C9, as the code has it. When a step of the fetch raises, the fetch returns the empty
  list, unless the restoration of the top-level document in the \<^verbatim>\<open>finally\<close> raises too:
  then the fetch itself raises, and the handler in the loop of \<open>main\<close> takes it. Either
  way the run goes on: with a working driver, every identifier of the list without
  duplicates is fetched, in order, and the data set is built by \<open>limpiar_datos\<close> from the
  raw rows of the identifiers that succeeded, and from nothing else.
\<close>

theorem aislamiento_por_nit:
  assumes "chrome_ok env" and "google_ok env"
  shows
    "(error_pasos (portal env nit) \<longrightarrow>
        extraer_datos_nit (portal env) nit =
          (if error_restaurar (portal env nit) then Inl WebDriverException else Inr [])) \<and>
     consultados (fst (main lee_otros na env NITS)) = fromkeys NITS [] \<and>
     snd (main lee_otros na env NITS) =
       Terminado (limpiar_datos lee_otros na
         (concat (map (\<lambda>nit. filas_validas (portal env nit))
            (filter (\<lambda>nit. exito (portal env nit)) (fromkeys NITS [])))))"
  using assms
  by (simp add: main_def bucle_estado extraer_datos_nit_casos Let_def)

theorem aislamiento_por_nit_witness:
  "consultados (fst (main (\<lambda>s. False) ''None''
      \<lparr>chrome_ok = True, google_ok = True,
       portal = (\<lambda>nit. if nit = ''A''
          then \<lparr>error_pasos = True, filas_tr = [], error_restaurar = False\<rparr>
          else \<lparr>error_pasos = False,
                filas_tr = [[''x'', ''NIT-802010614-Hospital San Jose'', ''15/01/2025'',
                             ''$5.000.000'', ''Anticipo'', ''ADRES'']],
                error_restaurar = False\<rparr>)\<rparr>
      [''A'', ''B'', ''A''])) = [''A'', ''B''] \<and>
   snd (main (\<lambda>s. False) ''None''
      \<lparr>chrome_ok = True, google_ok = True,
       portal = (\<lambda>nit. if nit = ''A''
          then \<lparr>error_pasos = True, filas_tr = [], error_restaurar = False\<rparr>
          else \<lparr>error_pasos = False,
                filas_tr = [[''x'', ''NIT-802010614-Hospital San Jose'', ''15/01/2025'',
                             ''$5.000.000'', ''Anticipo'', ''ADRES'']],
                error_restaurar = False\<rparr>)\<rparr>
      [''A'', ''B'', ''A'']) =
   Terminado [\<lparr>NIT_IPS = ''802010614'', Nombre_IPS = ''Hospital San Jose'',
      Fecha_Giro = ''15/01/2025'', Valor = Entero 5000000, Concepto = ''Anticipo'',
      Entidad = ''ADRES''\<rparr>]"
proof -
  let ?fila = "[''x'', ''NIT-802010614-Hospital San Jose'', ''15/01/2025'',
                             ''$5.000.000'', ''Anticipo'', ''ADRES'']"
  let ?env = "\<lparr>chrome_ok = True, google_ok = True,
       portal = (\<lambda>nit. if nit = ''A''
          then \<lparr>error_pasos = True, filas_tr = [], error_restaurar = False\<rparr>
          else \<lparr>error_pasos = False, filas_tr = [?fila], error_restaurar = False\<rparr>)\<rparr>"
  have a: "chrome_ok ?env" and b: "google_ok ?env" by simp_all
  have k: "fromkeys [''A'', ''B'', ''A''] [] = [''A'', ''B'']" by simp
  have l: "limpiar_datos (\<lambda>s. False) ''None'' [?fila] =
    [\<lparr>NIT_IPS = ''802010614'', Nombre_IPS = ''Hospital San Jose'',
      Fecha_Giro = ''15/01/2025'', Valor = Entero 5000000, Concepto = ''Anticipo'',
      Entidad = ''ADRES''\<rparr>]" by code_simp
  from aislamiento_por_nit [OF a b, of "''A''" "\<lambda>s. False" "''None''" "[''A'', ''B'', ''A'']"]
  show ?thesis
    unfolding k by (simp add: exito_def filas_validas_def l)
qed

text \<open>
  C9 as stated fails: with an exception in the steps of the fetch and another in the
  restoration of the top-level document, the fetch raises instead of returning the empty
  list.
\<close>

theorem extraer_datos_nit_lanza_counterexample:
  "extraer_datos_nit
     (\<lambda>nit. \<lparr>error_pasos = True, filas_tr = [], error_restaurar = True\<rparr>) ''890303208'' =
   Inl WebDriverException"
  by (simp add: extraer_datos_nit_def)

end
